theory Spec2Isabelle
  imports Complex_Main
begin

section \<open>Data model (domain/Currency.ts)\<close>

text \<open>
  JavaScript numbers are modelled as \<open>int\<close> where the program holds amounts in cents and
  denomination counts, and as \<open>rat\<close> where it holds the results of \<open>Math.random()\<close> and
  decimal amounts. Two record fields are renamed because the source uses the same field name
  in two interfaces: \<open>Currency.name\<close>/\<open>Currency.symbol\<close> are \<open>currencyName\<close>/\<open>currencySymbol\<close>,
  and \<open>ChangeResult.denominations\<close> is \<open>resultDenominations\<close>.
\<close>

record Denomination =
  name :: string
  valueInCents :: int
  symbol :: "string option"

record Currency =
  code :: string
  currencyName :: string
  currencySymbol :: string
  denominations :: "Denomination list"

text \<open>
  A JavaScript \<open>Map<string, V>\<close> iterates in insertion order, \<open>set\<close> on a present key
  keeps the key's position, and \<open>delete\<close> removes the key. It is modelled as an association list
  in insertion order.
\<close>

type_synonym 'v jsmap = "(string \<times> 'v) list"

fun Map_get :: "'v jsmap \<Rightarrow> string \<Rightarrow> 'v option" where
  "Map_get [] k = None"
| "Map_get ((k', v) # m) k = (if k' = k then Some v else Map_get m k)"

fun Map_set :: "'v jsmap \<Rightarrow> string \<Rightarrow> 'v \<Rightarrow> 'v jsmap" where
  "Map_set [] k v = [(k, v)]"
| "Map_set ((k', v') # m) k v = (if k' = k then (k, v) # m else (k', v') # Map_set m k v)"

fun Map_delete :: "'v jsmap \<Rightarrow> string \<Rightarrow> 'v jsmap" where
  "Map_delete [] k = []"
| "Map_delete ((k', v') # m) k = (if k' = k then m else (k', v') # Map_delete m k)"

definition Map_size :: "'v jsmap \<Rightarrow> nat" where
  "Map_size m = length m"

record ChangeResult =
  totalChangeInCents :: int
  resultDenominations :: "int jsmap"
  formattedOutput :: string

record Transaction =
  amountOwedInCents :: int
  amountPaidInCents :: int
  changeInCents :: int

record SpecialRuleConfig =
  divisor :: int
  description :: string

datatype CashRegisterError =
  InsufficientPaymentError int int
  | InvalidAmountError int

section \<open>Number primitives\<close>

text \<open>
  The template literal \<open>`${n}`\<close> of an integer-valued number is its decimal numeral, with a
  leading minus sign for a negative number.
\<close>

definition digit_char :: "nat \<Rightarrow> char" where
  "digit_char d = char_of (48 + d)"

fun digits :: "nat \<Rightarrow> string" where
  "digits n = (if n < 10 then [digit_char n] else digits (n div 10) @ [digit_char (n mod 10)])"

declare digits.simps [simp del]

definition number_to_string :: "int \<Rightarrow> string" where
  "number_to_string i = (if i < 0 then CHR ''-'' # digits (nat (- i)) else digits (nat i))"

text \<open>
  The remainder operator \<open>%\<close> of JavaScript takes the sign of the dividend, and is \<open>NaN\<close>
  (here \<open>None\<close>) when the divisor is zero.
\<close>

definition js_rem :: "int \<Rightarrow> int \<Rightarrow> int option" where
  "js_rem a b = (if b = 0 then None else Some (sgn a * (\<bar>a\<bar> mod \<bar>b\<bar>)))"

text \<open>
  \<open>Math.floor(a / b)\<close> on integers with \<open>b \<noteq> 0\<close> is the floor of the exact quotient, which
  is \<open>div\<close> on \<open>int\<close>. A denomination of value zero makes JavaScript produce \<open>Infinity\<close> or
  \<open>NaN\<close>, which \<open>int\<close> does not hold: the arithmetic results below are stated for tables
  whose values are positive, as the data model requires.
\<close>

definition floor_div :: "int \<Rightarrow> int \<Rightarrow> int" where
  "floor_div a b = a div b"

text \<open>
  \<open>Math.round(x)\<close> is the integer nearest to \<open>x\<close>, and of two equally near integers the one
  closer to \<open>+\<infinity>\<close>.
\<close>

definition Math_round :: "rat \<Rightarrow> int" where
  "Math_round x = \<lfloor>x + 1 / 2\<rfloor>"

section \<open>GreedyChangeStrategy (domain/ChangeStrategy.ts)\<close>

text \<open>
  \<open>[...currency.denominations].sort((a, b) => b.valueInCents - a.valueInCents)\<close>: a stable
  sort, highest value first.
\<close>

definition sortedDenominations :: "Currency \<Rightarrow> Denomination list" where
  "sortedDenominations currency = sort_key (\<lambda>d. - valueInCents d) (denominations currency)"

definition Greedy_shouldApply :: "Transaction \<Rightarrow> SpecialRuleConfig option \<Rightarrow> bool" where
  "Greedy_shouldApply transaction config =
     (case config of
        None \<Rightarrow> True
      | Some c \<Rightarrow> js_rem (changeInCents transaction) (divisor c) \<noteq> Some 0)"

text \<open>The loop of \<open>calculateChange\<close>: the state is the mapping and the remaining change.\<close>

fun greedy_loop :: "Denomination list \<Rightarrow> int jsmap \<Rightarrow> int \<Rightarrow> int jsmap \<times> int" where
  "greedy_loop [] denoms remainingChange = (denoms, remainingChange)"
| "greedy_loop (d # ds) denoms remainingChange =
     (if remainingChange \<ge> valueInCents d
      then let count = floor_div remainingChange (valueInCents d)
           in greedy_loop ds (Map_set denoms (name d) count)
                (remainingChange - count * valueInCents d)
      else greedy_loop ds denoms remainingChange)"

definition pluralize :: "string \<Rightarrow> string" where
  "pluralize n = (if n = ''penny'' then ''pennies'' else n @ ''s'')"

fun format_parts :: "int jsmap \<Rightarrow> string list \<Rightarrow> string list" where
  "format_parts [] parts = parts"
| "format_parts ((n, count) # m) parts =
     (if count > 0
      then let pluralName = (if count = 1 then n else pluralize n)
           in format_parts m (parts @ [number_to_string count @ '' '' @ pluralName])
      else format_parts m parts)"

fun join :: "string \<Rightarrow> string list \<Rightarrow> string" where
  "join sep [] = []"
| "join sep [p] = p"
| "join sep (p # q # ps) = p @ sep @ join sep (q # ps)"

definition Greedy_formatOutput :: "int jsmap \<Rightarrow> string" where
  "Greedy_formatOutput denoms = join '','' (format_parts denoms [])"

definition Greedy_calculateChange :: "Transaction \<Rightarrow> Currency \<Rightarrow> ChangeResult" where
  "Greedy_calculateChange transaction currency =
     (let denoms = fst (greedy_loop (sortedDenominations currency) [] (changeInCents transaction))
      in \<lparr> totalChangeInCents = changeInCents transaction,
           resultDenominations = denoms,
           formattedOutput = Greedy_formatOutput denoms \<rparr>)"

section \<open>Currency tables (config/currencies.ts)\<close>

text \<open>The cent sign, a character outside ASCII, as its two bytes in UTF-8.\<close>

definition cent_sign :: string where
  "cent_sign = [CHR 0xC2, CHR 0xA2]"

definition US_DENOMINATIONS :: "Denomination list" where
  "US_DENOMINATIONS =
     [\<lparr> name = ''dollar'', valueInCents = 100, symbol = Some ''$'' \<rparr>,
      \<lparr> name = ''quarter'', valueInCents = 25, symbol = Some cent_sign \<rparr>,
      \<lparr> name = ''dime'', valueInCents = 10, symbol = Some cent_sign \<rparr>,
      \<lparr> name = ''nickel'', valueInCents = 5, symbol = Some cent_sign \<rparr>,
      \<lparr> name = ''penny'', valueInCents = 1, symbol = Some cent_sign \<rparr>]"

definition US_CURRENCY :: Currency where
  "US_CURRENCY = \<lparr> code = ''USD'', currencyName = ''US Dollar'', currencySymbol = ''$'',
                    denominations = US_DENOMINATIONS \<rparr>"

section \<open>RandomChangeStrategy (domain/ChangeStrategy.ts)\<close>

text \<open>
  \<open>Math.random\<close> is a property of the global \<open>Math\<close> object. It is either the engine's own
  generator, modelled as an arbitrary sequence of draws and the position reached in it, or the
  closure installed by \<open>setupSeededRandom\<close>, whose only state is the captured variable
  \<open>seed\<close>. The products and thresholds computed from a draw are taken exactly, over \<open>rat\<close>.
\<close>

datatype rng = Native "nat \<Rightarrow> rat" nat | Seeded int

definition trunc_rem :: "int \<Rightarrow> int \<Rightarrow> int" where
  "trunc_rem a b = sgn a * (\<bar>a\<bar> mod \<bar>b\<bar>)"

fun Math_random :: "rng \<Rightarrow> rat \<times> rng" where
  "Math_random (Native f i) = (f i, Native f (Suc i))"
| "Math_random (Seeded seed) =
     (let seed' = trunc_rem (seed * 9301 + 49297) 233280
      in (of_int seed' / 233280, Seeded seed'))"

text \<open>
  The state the strategy works on: the private \<open>cache\<close> of one strategy instance, and the
  global \<open>Math.random\<close>, which every instance shares.
\<close>

record State =
  cache :: "int jsmap jsmap"
  random :: rng

definition maxAttempts :: nat where
  "maxAttempts = 500"

definition maxCacheSize :: nat where
  "maxCacheSize = 1000"

text \<open>
  The constructor: the cache starts empty; with a seed, \<open>setupSeededRandom\<close> replaces the
  global \<open>Math.random\<close>.
\<close>

definition setupSeededRandom :: "int \<Rightarrow> rng" where
  "setupSeededRandom randomSeed = Seeded randomSeed"

definition RandomChangeStrategy_new :: "int option \<Rightarrow> rng \<Rightarrow> State" where
  "RandomChangeStrategy_new randomSeed g =
     \<lparr> cache = [],
       random = (case randomSeed of None \<Rightarrow> g | Some s \<Rightarrow> setupSeededRandom s) \<rparr>"

definition Random_shouldApply :: "Transaction \<Rightarrow> SpecialRuleConfig option \<Rightarrow> bool" where
  "Random_shouldApply transaction config =
     (case config of
        None \<Rightarrow> False
      | Some c \<Rightarrow> js_rem (changeInCents transaction) (divisor c) = Some 0)"

fun valid_loop :: "int jsmap \<Rightarrow> Denomination list \<Rightarrow> int \<Rightarrow> int option" where
  "valid_loop [] ds tot = Some tot"
| "valid_loop ((n, count) # m) ds tot =
     (case find (\<lambda>d. name d = n) ds of
        None \<Rightarrow> None
      | Some d \<Rightarrow> valid_loop m ds (tot + count * valueInCents d))"

definition isValidCombination :: "int jsmap \<Rightarrow> int \<Rightarrow> Currency \<Rightarrow> bool" where
  "isValidCombination denoms targetAmount currency =
     (valid_loop denoms (denominations currency) 0 = Some targetAmount)"

definition Random_formatOutput :: "int jsmap \<Rightarrow> string" where
  "Random_formatOutput denoms = join '','' (format_parts denoms [])"

fun biasLarger_loop :: "Denomination list \<Rightarrow> int jsmap \<Rightarrow> int \<Rightarrow> rng \<Rightarrow> int jsmap \<times> rng" where
  "biasLarger_loop [] denoms remainingChange g = (denoms, g)"
| "biasLarger_loop (d # ds) denoms remainingChange g =
     (if remainingChange > 0
      then let maxCount = floor_div remainingChange (valueInCents d)
           in if maxCount > 0
              then let minBias = \<lceil>of_int maxCount * (6 / 10 :: rat)\<rceil>;
                       maxBias = \<lceil>of_int maxCount * (9 / 10 :: rat)\<rceil>;
                       r = fst (Math_random g);
                       g' = snd (Math_random g);
                       count = \<lfloor>r * of_int (maxBias - minBias + 1)\<rfloor> + minBias
                   in if count > 0
                      then biasLarger_loop ds (Map_set denoms (name d) (min count maxCount))
                             (remainingChange - min count maxCount * valueInCents d) g'
                      else biasLarger_loop ds denoms remainingChange g'
              else biasLarger_loop ds denoms remainingChange g
      else (denoms, g))"

definition generateRandomWithBiasTowardsLarger ::
  "int \<Rightarrow> Denomination list \<Rightarrow> rng \<Rightarrow> int jsmap \<times> rng" where
  "generateRandomWithBiasTowardsLarger c sortedDs g = biasLarger_loop sortedDs [] c g"

fun uniform_loop :: "Denomination list \<Rightarrow> int jsmap \<Rightarrow> int \<Rightarrow> rng \<Rightarrow> int jsmap \<times> rng" where
  "uniform_loop [] denoms remainingChange g = (denoms, g)"
| "uniform_loop (d # ds) denoms remainingChange g =
     (if remainingChange > 0
      then let maxCount = floor_div remainingChange (valueInCents d)
           in if maxCount > 0
              then let r = fst (Math_random g);
                       g' = snd (Math_random g);
                       count = \<lfloor>r * of_int (maxCount + 1)\<rfloor>
                   in if count > 0
                      then uniform_loop ds (Map_set denoms (name d) count)
                             (remainingChange - count * valueInCents d) g'
                      else uniform_loop ds denoms remainingChange g'
              else uniform_loop ds denoms remainingChange g
      else (denoms, g))"

definition generateRandomWithUniformDistribution ::
  "int \<Rightarrow> Denomination list \<Rightarrow> rng \<Rightarrow> int jsmap \<times> rng" where
  "generateRandomWithUniformDistribution c sortedDs g = uniform_loop sortedDs [] c g"

fun biasSmaller_loop :: "Denomination list \<Rightarrow> int jsmap \<Rightarrow> int \<Rightarrow> rng \<Rightarrow> int jsmap \<times> rng" where
  "biasSmaller_loop [] denoms remainingChange g = (denoms, g)"
| "biasSmaller_loop (d # ds) denoms remainingChange g =
     (let maxCount = floor_div remainingChange (valueInCents d)
      in if maxCount > 0
         then let bias = (fst (Math_random g) < 7 / 10);
                  g1 = snd (Math_random g);
                  r = fst (Math_random g1);
                  g2 = snd (Math_random g1);
                  count = (if bias
                           then \<lfloor>r * of_int maxCount\<rfloor> + \<lfloor>of_int maxCount * (1 / 2 :: rat)\<rfloor>
                           else \<lfloor>r * of_int (maxCount + 1)\<rfloor>);
                  actualCount = min count maxCount
              in if actualCount > 0
                 then biasSmaller_loop ds (Map_set denoms (name d) actualCount)
                        (remainingChange - actualCount * valueInCents d) g2
                 else biasSmaller_loop ds denoms remainingChange g2
         else biasSmaller_loop ds denoms remainingChange g)"

definition generateRandomWithBiasTowardsSmaller ::
  "int \<Rightarrow> Denomination list \<Rightarrow> rng \<Rightarrow> int jsmap \<times> rng" where
  "generateRandomWithBiasTowardsSmaller c sortedDs g = biasSmaller_loop (rev sortedDs) [] c g"

text \<open>
  \<open>generateOptimizedRandomCombination\<close>: the array \<open>strategies\<close> holds the three generators
  in this order; each gets \<open>Math.floor(maxAttempts / strategies.length)\<close> attempts, and the
  first valid candidate is returned.
\<close>

datatype heuristic = BiasTowardsLarger | UniformDistribution | BiasTowardsSmaller

fun run_heuristic :: "heuristic \<Rightarrow> int \<Rightarrow> Denomination list \<Rightarrow> rng \<Rightarrow> int jsmap \<times> rng" where
  "run_heuristic BiasTowardsLarger c sortedDs g = generateRandomWithBiasTowardsLarger c sortedDs g"
| "run_heuristic UniformDistribution c sortedDs g = generateRandomWithUniformDistribution c sortedDs g"
| "run_heuristic BiasTowardsSmaller c sortedDs g = generateRandomWithBiasTowardsSmaller c sortedDs g"

fun attempts_loop ::
  "nat \<Rightarrow> heuristic \<Rightarrow> int \<Rightarrow> Denomination list \<Rightarrow> Currency \<Rightarrow> rng \<Rightarrow> int jsmap option \<times> rng" where
  "attempts_loop 0 h c sortedDs currency g = (None, g)"
| "attempts_loop (Suc n) h c sortedDs currency g =
     (let candidate = fst (run_heuristic h c sortedDs g);
          g' = snd (run_heuristic h c sortedDs g)
      in if isValidCombination candidate c currency
         then (Some candidate, g')
         else attempts_loop n h c sortedDs currency g')"

fun strategies_loop ::
  "heuristic list \<Rightarrow> nat \<Rightarrow> int \<Rightarrow> Denomination list \<Rightarrow> Currency \<Rightarrow> rng \<Rightarrow> int jsmap option \<times> rng" where
  "strategies_loop [] n c sortedDs currency g = (None, g)"
| "strategies_loop (h # hs) n c sortedDs currency g =
     (case attempts_loop n h c sortedDs currency g of
        (Some candidate, g') \<Rightarrow> (Some candidate, g')
      | (None, g') \<Rightarrow> strategies_loop hs n c sortedDs currency g')"

definition generateOptimizedRandomCombination ::
  "int \<Rightarrow> Currency \<Rightarrow> rng \<Rightarrow> int jsmap option \<times> rng" where
  "generateOptimizedRandomCombination c currency g =
     (let sortedDs = sortedDenominations currency;
          strategies = [BiasTowardsLarger, UniformDistribution, BiasTowardsSmaller]
      in strategies_loop strategies (maxAttempts div length strategies) c sortedDs currency g)"

text \<open>
  \<open>cacheResult\<close>: \<open>this.cache.keys().next().value\<close> is the first key in insertion order
  (\<open>undefined\<close> for an empty map), and \<open>if (firstKey)\<close> is false for \<open>undefined\<close> and for the
  empty string.
\<close>

definition cacheResult :: "int jsmap jsmap \<Rightarrow> string \<Rightarrow> int jsmap \<Rightarrow> int jsmap jsmap" where
  "cacheResult c key result =
     (let c' = (if Map_size c \<ge> maxCacheSize
                then (case c of
                        [] \<Rightarrow> c
                      | (firstKey, v) # rest \<Rightarrow> if firstKey \<noteq> [] then Map_delete c firstKey else c)
                else c)
      in Map_set c' key result)"

definition clearCache :: "State \<Rightarrow> State" where
  "clearCache s = s\<lparr> cache := [] \<rparr>"

definition getCacheStats :: "State \<Rightarrow> nat \<times> nat" where
  "getCacheStats s = (Map_size (cache s), maxCacheSize)"

definition cacheKey :: "int \<Rightarrow> string \<Rightarrow> string" where
  "cacheKey c currencyCode = number_to_string c @ ''-'' @ currencyCode"

definition Random_calculateChange :: "State \<Rightarrow> Transaction \<Rightarrow> Currency \<Rightarrow> ChangeResult \<times> State" where
  "Random_calculateChange s transaction currency =
     (let c = changeInCents transaction;
          key = cacheKey c (code currency)
      in case Map_get (cache s) key of
           Some cachedResult \<Rightarrow>
             (\<lparr> totalChangeInCents = c,
                resultDenominations = cachedResult,
                formattedOutput = Random_formatOutput cachedResult \<rparr>, s)
         | None \<Rightarrow>
             (case generateOptimizedRandomCombination c currency (random s) of
                (None, g') \<Rightarrow> (Greedy_calculateChange transaction currency, s\<lparr> random := g' \<rparr>)
              | (Some bestResult, g') \<Rightarrow>
                  (\<lparr> totalChangeInCents = c,
                     resultDenominations = bestResult,
                     formattedOutput = Random_formatOutput bestResult \<rparr>,
                   \<lparr> cache = cacheResult (cache s) key bestResult, random = g' \<rparr>)))"

section \<open>ChangeStrategyFactory (domain/ChangeStrategy.ts)\<close>

text \<open>
  The factory's array holds strategy objects; the model holds their classes, and the state of
  the one \<open>RandomChangeStrategy\<close> that the factory's constructor creates (without a seed) is
  the \<open>State\<close> above.
\<close>

datatype ChangeStrategy = RandomChangeStrategy | GreedyChangeStrategy

fun shouldApply :: "ChangeStrategy \<Rightarrow> Transaction \<Rightarrow> SpecialRuleConfig option \<Rightarrow> bool" where
  "shouldApply RandomChangeStrategy t config = Random_shouldApply t config"
| "shouldApply GreedyChangeStrategy t config = Greedy_shouldApply t config"

fun calculateChange :: "ChangeStrategy \<Rightarrow> State \<Rightarrow> Transaction \<Rightarrow> Currency \<Rightarrow> ChangeResult \<times> State" where
  "calculateChange RandomChangeStrategy s t currency = Random_calculateChange s t currency"
| "calculateChange GreedyChangeStrategy s t currency = (Greedy_calculateChange t currency, s)"

definition ChangeStrategyFactory_new :: "ChangeStrategy list" where
  "ChangeStrategyFactory_new = [] @ [RandomChangeStrategy] @ [GreedyChangeStrategy]"

definition addStrategy :: "ChangeStrategy list \<Rightarrow> ChangeStrategy \<Rightarrow> ChangeStrategy list" where
  "addStrategy strategies strategy = strategy # strategies"

text \<open>The loop of \<open>getStrategy\<close>; \<open>None\<close> is falling out of the loop.\<close>

fun first_applicable ::
  "ChangeStrategy list \<Rightarrow> Transaction \<Rightarrow> SpecialRuleConfig option \<Rightarrow> ChangeStrategy option" where
  "first_applicable [] t config = None"
| "first_applicable (s # ss) t config =
     (if shouldApply s t config then Some s else first_applicable ss t config)"

definition getStrategy ::
  "ChangeStrategy list \<Rightarrow> Transaction \<Rightarrow> SpecialRuleConfig option \<Rightarrow> ChangeStrategy" where
  "getStrategy strategies t config =
     (case first_applicable strategies t config of
        Some s \<Rightarrow> s
      | None \<Rightarrow> GreedyChangeStrategy)"

section \<open>ChangeCalculator (domain/ChangeCalculator.ts)\<close>

record ChangeCalculator =
  currency :: Currency
  specialRuleConfig :: "SpecialRuleConfig option"
  strategyFactory :: "ChangeStrategy list"

definition ChangeCalculator_new :: "Currency \<Rightarrow> SpecialRuleConfig option \<Rightarrow> ChangeCalculator" where
  "ChangeCalculator_new cur config =
     \<lparr> currency = cur, specialRuleConfig = config, strategyFactory = ChangeStrategyFactory_new \<rparr>"

definition validateAmounts :: "int \<Rightarrow> int \<Rightarrow> CashRegisterError option" where
  "validateAmounts amountOwed amountPaid =
     (if amountOwed < 0 then Some (InvalidAmountError amountOwed)
      else if amountPaid < 0 then Some (InvalidAmountError amountPaid)
      else if amountPaid < amountOwed then Some (InsufficientPaymentError amountOwed amountPaid)
      else None)"

definition Calculator_calculateChange ::
  "ChangeCalculator \<Rightarrow> State \<Rightarrow> int \<Rightarrow> int \<Rightarrow> (CashRegisterError + ChangeResult) \<times> State" where
  "Calculator_calculateChange calc s owed paid =
     (case validateAmounts owed paid of
        Some e \<Rightarrow> (Inl e, s)
      | None \<Rightarrow>
          (let change = paid - owed
           in if change = 0
              then (Inr \<lparr> totalChangeInCents = 0, resultDenominations = [], formattedOutput = [] \<rparr>, s)
              else let transaction = \<lparr> amountOwedInCents = owed,
                                       amountPaidInCents = paid,
                                       changeInCents = change \<rparr>;
                       strategy = getStrategy (strategyFactory calc) transaction (specialRuleConfig calc);
                       res = calculateChange strategy s transaction (currency calc)
                   in (Inr (fst res), snd res)))"

text \<open>
  \<open>processTransactions\<close>: \<open>Array.prototype.map\<close> calls the callback on the pairs in order
  and collects the results; an exception thrown by a call ends the whole \<open>map\<close>. The amounts
  are decimal numbers; their double-precision product with 100 is the parameter \<open>mul\<close>.
\<close>

fun map_loop ::
  "(rat \<Rightarrow> rat \<Rightarrow> rat) \<Rightarrow> ChangeCalculator \<Rightarrow> (rat \<times> rat) list \<Rightarrow> string list \<Rightarrow> State
     \<Rightarrow> (CashRegisterError + string list) \<times> State" where
  "map_loop mul calc [] acc s = (Inr acc, s)"
| "map_loop mul calc ((amountOwed, amountPaid) # rest) acc s =
     (case Calculator_calculateChange calc s
             (Math_round (mul amountOwed 100)) (Math_round (mul amountPaid 100)) of
        (Inl e, s') \<Rightarrow> (Inl e, s')
      | (Inr result, s') \<Rightarrow> map_loop mul calc rest (acc @ [formattedOutput result]) s')"

definition processTransactions ::
  "(rat \<Rightarrow> rat \<Rightarrow> rat) \<Rightarrow> ChangeCalculator \<Rightarrow> State \<Rightarrow> (rat \<times> rat) list
     \<Rightarrow> (CashRegisterError + string list) \<times> State" where
  "processTransactions mul calc s transactions = map_loop mul calc transactions [] s"

section \<open>Definitions used to state the properties\<close>

text \<open>
  The rendering of one entry of a result mapping, in the words of the formatting rule: the
  count, a space, and the name, which is pluralised when the count is not one by appending
  \<open>s\<close>, except that \<open>penny\<close> becomes \<open>pennies\<close>.
\<close>

definition spec_entry :: "string \<times> int \<Rightarrow> string" where
  "spec_entry e =
     number_to_string (snd e) @ '' '' @
       (if snd e = 1 then fst e else if fst e = ''penny'' then ''pennies'' else fst e @ ''s'')"

text \<open>
  What can happen to one strategy instance and the global generator between two moments:
  a call of \<open>calculateChange\<close>, a call of \<open>clearCache\<close>, or any change of the global
  \<open>Math.random\<close> made elsewhere (draws by other code, or another seeded constructor).
\<close>

datatype operation = Calculate Transaction Currency | ClearCache | SetRandom rng

fun apply_operation :: "State \<Rightarrow> operation \<Rightarrow> State" where
  "apply_operation s (Calculate t cur) = snd (Random_calculateChange s t cur)"
| "apply_operation s ClearCache = clearCache s"
| "apply_operation s (SetRandom g) = s\<lparr> random := g \<rparr>"

definition run_operations :: "State \<Rightarrow> operation list \<Rightarrow> State" where
  "run_operations s ops = foldl apply_operation s ops"

text \<open>
  The candidates that \<open>n\<close> consecutive attempts of one heuristic generate, without the early
  return, and the generator after them.
\<close>

fun attempt_candidates ::
  "nat \<Rightarrow> heuristic \<Rightarrow> int \<Rightarrow> Denomination list \<Rightarrow> rng \<Rightarrow> int jsmap list \<times> rng" where
  "attempt_candidates 0 h c sortedDs g = ([], g)"
| "attempt_candidates (Suc n) h c sortedDs g =
     (case run_heuristic h c sortedDs g of
        (candidate, g1) \<Rightarrow>
          (case attempt_candidates n h c sortedDs g1 of
             (candidates, g2) \<Rightarrow> (candidate # candidates, g2)))"

text \<open>
  All candidates of the attempt budget: \<open>\<lfloor>500 / 3\<rfloor>\<close> attempts of each heuristic, in the
  order in which \<open>generateOptimizedRandomCombination\<close> tries them.
\<close>

definition budget_candidates :: "int \<Rightarrow> Currency \<Rightarrow> rng \<Rightarrow> int jsmap list" where
  "budget_candidates c cur g =
     (case attempt_candidates (500 div 3) BiasTowardsLarger c (sortedDenominations cur) g of
        (l1, g1) \<Rightarrow>
          (case attempt_candidates (500 div 3) UniformDistribution c (sortedDenominations cur) g1 of
             (l2, g2) \<Rightarrow>
               (case attempt_candidates (500 div 3) BiasTowardsSmaller c (sortedDenominations cur) g2 of
                  (l3, g3) \<Rightarrow> l1 @ l2 @ l3)))"

text \<open>The transaction that the calculator builds from two amounts.\<close>

definition transaction_of :: "int \<Rightarrow> int \<Rightarrow> Transaction" where
  "transaction_of owed paid =
     \<lparr> amountOwedInCents = owed, amountPaidInCents = paid, changeInCents = paid - owed \<rparr>"

text \<open>
  The invariant of the cache: at most \<open>maxCacheSize\<close> entries, and no empty key (an empty
  first key would not be evicted).
\<close>

definition cache_inv :: "int jsmap jsmap \<Rightarrow> bool" where
  "cache_inv c \<longleftrightarrow> Map_size c \<le> maxCacheSize \<and> [] \<notin> fst ` set c"

text \<open>
  The generator after one draw, the captured seed of a seeded generator, and the seeded
  generators whose seed is not negative (their draws lie in \<open>[0, 1)\<close>).
\<close>

definition next_random :: "rng \<Rightarrow> rng" where
  "next_random g = snd (Math_random g)"

definition seed_of :: "rng \<Rightarrow> int option" where
  "seed_of g = (case g of Seeded sd \<Rightarrow> Some sd | Native f i \<Rightarrow> None)"

definition seeded_nonneg :: "rng \<Rightarrow> bool" where
  "seeded_nonneg g = (case g of Seeded sd \<Rightarrow> 0 \<le> sd | Native f i \<Rightarrow> False)"

text \<open>
  A family of calls with pairwise different cache keys, used to fill a cache: change 1 in a
  currency whose code is a run of \<open>x\<close> and whose only denomination is the penny.
\<close>

definition penny_table :: "string \<Rightarrow> Currency" where
  "penny_table k =
     \<lparr> code = k, currencyName = ''Pennies'', currencySymbol = ''c'',
       denominations = [\<lparr> name = ''penny'', valueInCents = 1, symbol = None \<rparr>] \<rparr>"

definition fill_code :: "nat \<Rightarrow> string" where
  "fill_code j = replicate (Suc j) CHR ''x''"

definition fill_operation :: "nat \<Rightarrow> operation" where
  "fill_operation j = Calculate (transaction_of 0 1) (penny_table (fill_code j))"

definition fill_operations :: "nat \<Rightarrow> operation list" where
  "fill_operations n = map fill_operation [0..<n]"

definition fill_entry :: "nat \<Rightarrow> string \<times> int jsmap" where
  "fill_entry j = (cacheKey 1 (fill_code j), [(''penny'', 1)])"

text \<open>
  A concrete instance, seeded with 12345, its first call (75 cents in US currency), and the
  mapping that this call caches.
\<close>

definition example_seeded :: State where
  "example_seeded = RandomChangeStrategy_new (Some 12345) (Native (\<lambda>i. 0) 0)"

definition example_first :: operation where
  "example_first = Calculate (transaction_of 0 75) US_CURRENCY"

definition example_snapshot :: "int jsmap" where
  "example_snapshot = [(''quarter'', 2), (''dime'', 2), (''nickel'', 1)]"

text \<open>
  Rounding to the nearest integer with ties away from zero, as the batch contract words it.
\<close>

definition round_half_away_from_zero :: "rat \<Rightarrow> int" where
  "round_half_away_from_zero x = (if x < 0 then - \<lfloor>- x + 1 / 2\<rfloor> else \<lfloor>x + 1 / 2\<rfloor>)"

text \<open>A sequence of calls on one strategy instance, and the results in order.\<close>

fun run_calls :: "State \<Rightarrow> (Transaction \<times> Currency) list \<Rightarrow> ChangeResult list \<times> State" where
  "run_calls s [] = ([], s)"
| "run_calls s ((t, cur) # rest) =
     (case Random_calculateChange s t cur of
        (r, s') \<Rightarrow> (case run_calls s' rest of (rs, s'') \<Rightarrow> (r # rs, s'')))"

text \<open>
  Two instances with the same seed and the same calls. In \<open>one_after_the_other\<close> the second
  instance is constructed when the first has made its calls; in \<open>both_constructed_first\<close>
  the two constructors run first, and then the calls of the first and of the second instance.
  The cache belongs to the instance; \<open>Math.random\<close> is the one global generator.
\<close>

definition one_after_the_other ::
  "int \<Rightarrow> rng \<Rightarrow> (Transaction \<times> Currency) list \<Rightarrow> ChangeResult list \<times> ChangeResult list" where
  "one_after_the_other seed g calls =
     (let a = RandomChangeStrategy_new (Some seed) g;
          ra = run_calls a calls;
          b = RandomChangeStrategy_new (Some seed) (random (snd ra));
          rb = run_calls b calls
      in (fst ra, fst rb))"

definition both_constructed_first ::
  "int \<Rightarrow> rng \<Rightarrow> (Transaction \<times> Currency) list \<Rightarrow> ChangeResult list \<times> ChangeResult list" where
  "both_constructed_first seed g calls =
     (let a = RandomChangeStrategy_new (Some seed) g;
          b = RandomChangeStrategy_new (Some seed) (random a);
          ra = run_calls \<lparr> cache = cache a, random = random b \<rparr> calls;
          rb = run_calls \<lparr> cache = cache b, random = random (snd ra) \<rparr> calls
      in (fst ra, fst rb))"













section \<open>Formatting\<close>

lemma format_parts_eq:
  "format_parts m parts = parts @ map spec_entry (filter (\<lambda>e. 0 < snd e) m)"
  by (induction m parts rule: format_parts.induct)
     (simp_all add: spec_entry_def pluralize_def Let_def)

lemma greedy_example_88:
  "Greedy_calculateChange
     \<lparr> amountOwedInCents = 212, amountPaidInCents = 300, changeInCents = 88 \<rparr> US_CURRENCY
   = \<lparr> totalChangeInCents = 88,
       resultDenominations = [(''quarter'', 3), (''dime'', 1), (''penny'', 3)],
       formattedOutput = ''3 quarters,1 dime,3 pennies'' \<rparr>"
  by code_simp

text \<open>
  C9. Both strategies format a mapping in the same way: the entries with a positive count, in
  the mapping's insertion order, each rendered as the count, a space and the name (pluralised
  by \<open>s\<close>, \<open>penny\<close> to \<open>pennies\<close>, when the count is not one), joined by a comma without
  spaces; the empty mapping gives the empty string; and the change 88 on the US table gives
  \<open>3 quarters,1 dime,3 pennies\<close>.
\<close>

theorem formatOutput_spec:
  "Greedy_formatOutput m = join '','' (map spec_entry (filter (\<lambda>e. 0 < snd e) m))
   \<and> Random_formatOutput m = Greedy_formatOutput m
   \<and> Greedy_formatOutput [] = []
   \<and> join '','' [a, b, c] = a @ '','' @ b @ '','' @ c
   \<and> Greedy_calculateChange
         \<lparr> amountOwedInCents = 212, amountPaidInCents = 300, changeInCents = 88 \<rparr> US_CURRENCY
       = \<lparr> totalChangeInCents = 88,
           resultDenominations = [(''quarter'', 3), (''dime'', 1), (''penny'', 3)],
           formattedOutput = ''3 quarters,1 dime,3 pennies'' \<rparr>"
  using greedy_example_88
  by (simp add: Greedy_formatOutput_def Random_formatOutput_def format_parts_eq)

section \<open>Validation and the zero-change short cut\<close>

text \<open>
  C2. \<open>calculateChange\<close> of the calculator fails with \<open>InvalidAmountError\<close> exactly when
  an amount is negative (the amount owed is checked first and is then the one reported), fails
  with \<open>InsufficientPaymentError\<close> exactly when both amounts are non-negative and the amount
  paid is smaller, and returns a result in every other case; when it fails, the state of the
  strategies (the cache and the random generator) is the one it started with.
\<close>

theorem validateAmounts_errors:
  "((\<exists>a. fst (Calculator_calculateChange calc s owed paid) = Inl (InvalidAmountError a))
      \<longleftrightarrow> owed < 0 \<or> paid < 0)
   \<and> (owed < 0 \<longrightarrow>
        fst (Calculator_calculateChange calc s owed paid) = Inl (InvalidAmountError owed))
   \<and> (0 \<le> owed \<and> paid < 0 \<longrightarrow>
        fst (Calculator_calculateChange calc s owed paid) = Inl (InvalidAmountError paid))
   \<and> ((\<exists>a b. fst (Calculator_calculateChange calc s owed paid) = Inl (InsufficientPaymentError a b))
      \<longleftrightarrow> 0 \<le> owed \<and> 0 \<le> paid \<and> paid < owed)
   \<and> ((\<exists>r. fst (Calculator_calculateChange calc s owed paid) = Inr r)
      \<longleftrightarrow> 0 \<le> owed \<and> owed \<le> paid)
   \<and> (\<forall>e. fst (Calculator_calculateChange calc s owed paid) = Inl e
          \<longrightarrow> snd (Calculator_calculateChange calc s owed paid) = s)"
  by (auto simp: Calculator_calculateChange_def validateAmounts_def Let_def split: if_splits)

theorem validateAmounts_errors_witness:
  "Calculator_calculateChange (ChangeCalculator_new US_CURRENCY None)
       \<lparr> cache = [], random = Seeded 1 \<rparr> (- 1) 5
     = (Inl (InvalidAmountError (- 1)), \<lparr> cache = [], random = Seeded 1 \<rparr>)
   \<and> Calculator_calculateChange (ChangeCalculator_new US_CURRENCY None)
       \<lparr> cache = [], random = Seeded 1 \<rparr> 5 (- 1)
     = (Inl (InvalidAmountError (- 1)), \<lparr> cache = [], random = Seeded 1 \<rparr>)"
proof -
  let ?c = "ChangeCalculator_new US_CURRENCY None"
  let ?s = "\<lparr> cache = [], random = Seeded 1 \<rparr>"
  have a: "(- 1 :: int) < 0" and b: "(0 :: int) \<le> 5 \<and> (- 1 :: int) < 0"
    by simp_all
  from validateAmounts_errors [of ?c ?s "- 1" 5] a
  have 1: "fst (Calculator_calculateChange ?c ?s (- 1) 5) = Inl (InvalidAmountError (- 1))"
    and 2: "snd (Calculator_calculateChange ?c ?s (- 1) 5) = ?s"
    by blast+
  from validateAmounts_errors [of ?c ?s 5 "- 1"] b
  have 3: "fst (Calculator_calculateChange ?c ?s 5 (- 1)) = Inl (InvalidAmountError (- 1))"
    and 4: "snd (Calculator_calculateChange ?c ?s 5 (- 1)) = ?s"
    by blast+
  from 1 2 3 4 show ?thesis
    by (simp add: prod_eq_iff)
qed

text \<open>
  C3. For every \<open>n \<ge> 0\<close>, every currency, every rule configuration and every list of
  registered strategies, \<open>calculateChange(n, n)\<close> returns the result with total 0, the empty
  mapping and the empty text, and leaves the state of the strategies as it was.
\<close>

theorem zero_change:
  "0 \<le> n \<Longrightarrow>
   Calculator_calculateChange calc s n n
     = (Inr \<lparr> totalChangeInCents = 0, resultDenominations = [], formattedOutput = [] \<rparr>, s)"
  by (simp add: Calculator_calculateChange_def validateAmounts_def)

theorem zero_change_witness:
  "Calculator_calculateChange
       (ChangeCalculator_new US_CURRENCY (Some \<lparr> divisor = 3, description = ''rule'' \<rparr>))
       \<lparr> cache = [], random = Seeded 1 \<rparr> 100 100
     = (Inr \<lparr> totalChangeInCents = 0, resultDenominations = [], formattedOutput = [] \<rparr>,
        \<lparr> cache = [], random = Seeded 1 \<rparr>)"
proof -
  have h: "(0 :: int) \<le> 100" by simp
  show ?thesis by (rule zero_change [OF h])
qed

section \<open>Strategy selection\<close>

lemma js_rem_zero_iff: "b \<noteq> 0 \<Longrightarrow> js_rem a b = Some 0 \<longleftrightarrow> a mod b = 0"
  by (auto simp: js_rem_def sgn_if mod_eq_0_iff_dvd)

text \<open>
  C4. With the two strategies that the factory's constructor registers, \<open>getStrategy\<close>
  returns the randomized strategy exactly when a configuration is supplied and the program's
  test \<open>change % divisor === 0\<close> succeeds, and the greedy strategy otherwise. For a divisor
  other than zero that test is \<open>change mod divisor = 0\<close> (with the divisor zero the remainder
  is \<open>NaN\<close> and the test fails). Without a configuration the greedy strategy is returned.
  Exactly one of the two predicates holds, so the loop always returns and the fallback after
  it is never reached.
\<close>

theorem getStrategy_routing:
  "(getStrategy ChangeStrategyFactory_new t config = RandomChangeStrategy
      \<longleftrightarrow> (\<exists>cfg. config = Some cfg \<and> js_rem (changeInCents t) (divisor cfg) = Some 0))
   \<and> (getStrategy ChangeStrategyFactory_new t config = GreedyChangeStrategy
      \<longleftrightarrow> \<not> (\<exists>cfg. config = Some cfg \<and> js_rem (changeInCents t) (divisor cfg) = Some 0))
   \<and> (\<forall>cfg. config = Some cfg \<and> divisor cfg \<noteq> 0 \<longrightarrow>
         (getStrategy ChangeStrategyFactory_new t config = RandomChangeStrategy
            \<longleftrightarrow> changeInCents t mod divisor cfg = 0))
   \<and> getStrategy ChangeStrategyFactory_new t None = GreedyChangeStrategy
   \<and> (Random_shouldApply t config \<longleftrightarrow> \<not> Greedy_shouldApply t config)
   \<and> first_applicable ChangeStrategyFactory_new t config \<noteq> None"
  by (auto simp: getStrategy_def ChangeStrategyFactory_new_def Random_shouldApply_def
        Greedy_shouldApply_def js_rem_zero_iff split: option.splits)

theorem getStrategy_routing_witness:
  "getStrategy ChangeStrategyFactory_new
       \<lparr> amountOwedInCents = 100, amountPaidInCents = 268, changeInCents = 168 \<rparr>
       (Some \<lparr> divisor = 3, description = ''rule'' \<rparr>) = RandomChangeStrategy
   \<and> getStrategy ChangeStrategyFactory_new
       \<lparr> amountOwedInCents = 200, amountPaidInCents = 300, changeInCents = 100 \<rparr>
       (Some \<lparr> divisor = 3, description = ''rule'' \<rparr>) \<noteq> RandomChangeStrategy"
proof -
  note r = getStrategy_routing [THEN conjunct2, THEN conjunct2, THEN conjunct1, rule_format]
  have 1: "getStrategy ChangeStrategyFactory_new
       \<lparr> amountOwedInCents = 100, amountPaidInCents = 268, changeInCents = 168 \<rparr>
       (Some \<lparr> divisor = 3, description = ''rule'' \<rparr>) = RandomChangeStrategy"
    by (subst r [where cfg = "\<lparr> divisor = 3, description = ''rule'' \<rparr>"]) simp_all
  have 2: "getStrategy ChangeStrategyFactory_new
       \<lparr> amountOwedInCents = 200, amountPaidInCents = 300, changeInCents = 100 \<rparr>
       (Some \<lparr> divisor = 3, description = ''rule'' \<rparr>) \<noteq> RandomChangeStrategy"
    by (subst r [where cfg = "\<lparr> divisor = 3, description = ''rule'' \<rparr>"]) simp_all
  from 1 2 show ?thesis by (rule conjI)
qed

section \<open>The attempt budget and the fallback\<close>

lemma attempts_loop_None:
  "fst (attempts_loop n h c ds cur g) = None \<longleftrightarrow>
     (\<forall>cand\<in>set (fst (attempt_candidates n h c ds g)). \<not> isValidCombination cand c cur)"
  by (induction n arbitrary: g) (auto simp: Let_def split: prod.splits)

lemma attempts_loop_None_rng:
  "fst (attempts_loop n h c ds cur g) = None \<Longrightarrow>
     snd (attempts_loop n h c ds cur g) = snd (attempt_candidates n h c ds g)"
  by (induction n arbitrary: g) (auto simp: Let_def split: if_splits prod.splits)

lemma length_attempt_candidates: "length (fst (attempt_candidates n h c ds g)) = n"
proof (induction n arbitrary: g)
  case 0
  show ?case by simp
next
  case (Suc n)
  obtain cand g1 where r: "run_heuristic h c ds g = (cand, g1)"
    by (cases "run_heuristic h c ds g")
  obtain cands g2 where a: "attempt_candidates n h c ds g1 = (cands, g2)"
    by (cases "attempt_candidates n h c ds g1")
  from Suc [of g1] a have "length cands = n" by simp
  with r a show ?case by simp
qed

lemma generateOptimized_None:
  "fst (generateOptimizedRandomCombination c cur g) = None \<longleftrightarrow>
     (\<forall>cand\<in>set (budget_candidates c cur g). \<not> isValidCombination cand c cur)"
proof -
  let ?ds = "sortedDenominations cur"
  define n :: nat where "n = 166"
  have n: "maxAttempts div length [BiasTowardsLarger, UniformDistribution, BiasTowardsSmaller] = n"
    "500 div 3 = n"
    by (simp_all add: maxAttempts_def n_def)
  obtain r1 g1 where a1: "attempts_loop n BiasTowardsLarger c ?ds cur g = (r1, g1)"
    by (cases "attempts_loop n BiasTowardsLarger c ?ds cur g")
  obtain r2 g2 where a2: "attempts_loop n UniformDistribution c ?ds cur g1 = (r2, g2)"
    by (cases "attempts_loop n UniformDistribution c ?ds cur g1")
  obtain r3 g3 where a3: "attempts_loop n BiasTowardsSmaller c ?ds cur g2 = (r3, g3)"
    by (cases "attempts_loop n BiasTowardsSmaller c ?ds cur g2")
  obtain l1 h1 where b1: "attempt_candidates n BiasTowardsLarger c ?ds g = (l1, h1)"
    by (cases "attempt_candidates n BiasTowardsLarger c ?ds g")
  obtain l2 h2 where b2: "attempt_candidates n UniformDistribution c ?ds h1 = (l2, h2)"
    by (cases "attempt_candidates n UniformDistribution c ?ds h1")
  obtain l3 h3 where b3: "attempt_candidates n BiasTowardsSmaller c ?ds h2 = (l3, h3)"
    by (cases "attempt_candidates n BiasTowardsSmaller c ?ds h2")
  have gen: "generateOptimizedRandomCombination c cur g
               = strategies_loop [BiasTowardsLarger, UniformDistribution, BiasTowardsSmaller] n c ?ds cur g"
    unfolding generateOptimizedRandomCombination_def Let_def n(1) ..
  have bud: "budget_candidates c cur g = l1 @ l2 @ l3"
    unfolding budget_candidates_def n(2) by (simp add: b1 b2 b3)
  have c1: "r1 = None \<longleftrightarrow> (\<forall>cand\<in>set l1. \<not> isValidCombination cand c cur)"
    using attempts_loop_None [of n BiasTowardsLarger c ?ds cur g] a1 b1 by simp
  have e1: "r1 = None \<Longrightarrow> g1 = h1"
    using attempts_loop_None_rng [of n BiasTowardsLarger c ?ds cur g] a1 b1 by simp
  show ?thesis
  proof (cases r1)
    case (Some x)
    with c1 a1 show ?thesis by (auto simp: gen bud)
  next
    case None
    with e1 have g1: "g1 = h1" by simp
    have c2: "r2 = None \<longleftrightarrow> (\<forall>cand\<in>set l2. \<not> isValidCombination cand c cur)"
      using attempts_loop_None [of n UniformDistribution c ?ds cur g1] a2 b2 g1 by simp
    have e2: "r2 = None \<Longrightarrow> g2 = h2"
      using attempts_loop_None_rng [of n UniformDistribution c ?ds cur g1] a2 b2 g1 by simp
    show ?thesis
    proof (cases r2)
      case (Some y)
      with c1 c2 a1 a2 None show ?thesis by (auto simp: gen bud)
    next
      case r2: None
      with e2 have g2: "g2 = h2" by simp
      have c3: "r3 = None \<longleftrightarrow> (\<forall>cand\<in>set l3. \<not> isValidCombination cand c cur)"
        using attempts_loop_None [of n BiasTowardsSmaller c ?ds cur g2] a3 b3 g2 by simp
      from c1 c2 c3 a1 a2 a3 None r2 show ?thesis
        by (cases r3) (auto simp: gen bud)
    qed
  qed
qed

lemma length_budget_candidates: "length (budget_candidates c cur g) = 498"
proof -
  let ?ds = "sortedDenominations cur"
  obtain l1 g1 where 1: "attempt_candidates (500 div 3) BiasTowardsLarger c ?ds g = (l1, g1)"
    by (cases "attempt_candidates (500 div 3) BiasTowardsLarger c ?ds g")
  obtain l2 g2 where 2: "attempt_candidates (500 div 3) UniformDistribution c ?ds g1 = (l2, g2)"
    by (cases "attempt_candidates (500 div 3) UniformDistribution c ?ds g1")
  obtain l3 g3 where 3: "attempt_candidates (500 div 3) BiasTowardsSmaller c ?ds g2 = (l3, g3)"
    by (cases "attempt_candidates (500 div 3) BiasTowardsSmaller c ?ds g2")
  from length_attempt_candidates [of "500 div 3" BiasTowardsLarger c ?ds g] 1
  have "length l1 = 166" by simp
  moreover from length_attempt_candidates [of "500 div 3" UniformDistribution c ?ds g1] 2
  have "length l2 = 166" by simp
  moreover from length_attempt_candidates [of "500 div 3" BiasTowardsSmaller c ?ds g2] 3
  have "length l3 = 166" by simp
  ultimately show ?thesis
    using 1 2 3 by (simp add: budget_candidates_def)
qed

text \<open>
  C6. On a call of the randomized strategy whose key is not in the cache, if none of the
  candidates of the attempt budget (\<open>\<lfloor>500 / 3\<rfloor> = 166\<close> attempts of each of the three
  heuristics, in their fixed order) is valid, which is exactly when
  \<open>generateOptimizedRandomCombination\<close> returns \<open>null\<close>, the call returns what the greedy
  strategy returns for the same transaction and currency, and the cache is left as it was.
\<close>

theorem fallback_to_greedy:
  assumes "Map_get (cache s) (cacheKey (changeInCents t) (code cur)) = None"
  shows "(fst (generateOptimizedRandomCombination (changeInCents t) cur (random s)) = None
            \<longleftrightarrow> (\<forall>cand\<in>set (budget_candidates (changeInCents t) cur (random s)).
                   \<not> isValidCombination cand (changeInCents t) cur))
         \<and> ((\<forall>cand\<in>set (budget_candidates (changeInCents t) cur (random s)).
                \<not> isValidCombination cand (changeInCents t) cur) \<longrightarrow>
              fst (Random_calculateChange s t cur) = Greedy_calculateChange t cur
              \<and> cache (snd (Random_calculateChange s t cur)) = cache s)
         \<and> length (budget_candidates (changeInCents t) cur (random s)) = 3 * (500 div 3)"
proof (intro conjI impI)
  show "fst (generateOptimizedRandomCombination (changeInCents t) cur (random s)) = None
            \<longleftrightarrow> (\<forall>cand\<in>set (budget_candidates (changeInCents t) cur (random s)).
                   \<not> isValidCombination cand (changeInCents t) cur)"
    by (rule generateOptimized_None)
next
  assume inv: "\<forall>cand\<in>set (budget_candidates (changeInCents t) cur (random s)).
                 \<not> isValidCombination cand (changeInCents t) cur"
  obtain r g' where g: "generateOptimizedRandomCombination (changeInCents t) cur (random s) = (r, g')"
    by (cases "generateOptimizedRandomCombination (changeInCents t) cur (random s)")
  with inv have "r = None"
    using generateOptimized_None [of "changeInCents t" cur "random s"] by simp
  with g assms
  have e: "Random_calculateChange s t cur = (Greedy_calculateChange t cur, s\<lparr> random := g' \<rparr>)"
    by (simp add: Random_calculateChange_def Let_def)
  from e show "fst (Random_calculateChange s t cur) = Greedy_calculateChange t cur"
    by simp
  from e show "cache (snd (Random_calculateChange s t cur)) = cache s"
    by simp
next
  show "length (budget_candidates (changeInCents t) cur (random s)) = 3 * (500 div 3)"
    by (simp add: length_budget_candidates)
qed

lemma fallback_example_None:
  "fst (generateOptimizedRandomCombination 3 US_CURRENCY (Native (\<lambda>i. 0) 0)) = None"
  by code_simp

lemma fallback_example_greedy:
  "Greedy_calculateChange (transaction_of 0 3) US_CURRENCY
    = \<lparr> totalChangeInCents = 3, resultDenominations = [(''penny'', 3)], formattedOutput = ''3 pennies'' \<rparr>"
  by code_simp

theorem fallback_to_greedy_witness:
  "fst (Random_calculateChange \<lparr> cache = [], random = Native (\<lambda>i. 0) 0 \<rparr> (transaction_of 0 3) US_CURRENCY)
     = \<lparr> totalChangeInCents = 3, resultDenominations = [(''penny'', 3)], formattedOutput = ''3 pennies'' \<rparr>
   \<and> cache (snd (Random_calculateChange \<lparr> cache = [], random = Native (\<lambda>i. 0) 0 \<rparr> (transaction_of 0 3) US_CURRENCY)) = []"
proof -
  let ?s = "\<lparr> cache = [], random = Native (\<lambda>i. 0) 0 \<rparr>"
  let ?t = "transaction_of 0 3"
  have c: "changeInCents ?t = 3" by (simp add: transaction_of_def)
  have 1: "Map_get (cache ?s) (cacheKey (changeInCents ?t) (code US_CURRENCY)) = None"
    by simp
  have 2: "\<forall>cand\<in>set (budget_candidates (changeInCents ?t) US_CURRENCY (random ?s)).
           \<not> isValidCombination cand (changeInCents ?t) US_CURRENCY"
    using fallback_example_None by (simp add: c generateOptimized_None)
  from fallback_to_greedy [OF 1, THEN conjunct2, THEN conjunct1, THEN mp, OF 2]
  show ?thesis
    by (simp add: fallback_example_greedy)
qed

section \<open>The cache\<close>

lemma Map_get_None_iff: "Map_get m k = None \<longleftrightarrow> k \<notin> fst ` set m"
  by (induction m) (auto split: if_splits)

lemma Map_get_set_same: "Map_get (Map_set m k v) k = Some v"
  by (induction m) auto

lemma Map_set_absent: "k \<notin> fst ` set m \<Longrightarrow> Map_set m k v = m @ [(k, v)]"
  by (induction m) auto

lemma keys_Map_set: "fst ` set (Map_set m k v) = insert k (fst ` set m)"
proof (induction m)
  case Nil
  show ?case by simp
next
  case (Cons e m)
  obtain k' v' where e: "e = (k', v')" by (cases e)
  show ?case
  proof (cases "k' = k")
    case True
    with e show ?thesis by auto
  next
    case False
    with e Cons show ?thesis by auto
  qed
qed

lemma length_Map_set: "length (Map_set m k v) \<le> Suc (length m)"
  by (induction m) auto

lemma keys_Map_delete: "fst ` set (Map_delete m k) \<subseteq> fst ` set m"
proof (induction m)
  case Nil
  show ?case by simp
next
  case (Cons e m)
  obtain k' v' where e: "e = (k', v')" by (cases e)
  show ?case
  proof (cases "k' = k")
    case True
    with e show ?thesis by auto
  next
    case False
    with e Cons show ?thesis by auto
  qed
qed

lemma cacheKey_nonempty: "cacheKey c k \<noteq> []"
  by (simp add: cacheKey_def)

lemma cacheResult_below:
  "Map_size c < maxCacheSize \<Longrightarrow> key \<notin> fst ` set c \<Longrightarrow> cacheResult c key m = c @ [(key, m)]"
  by (simp add: cacheResult_def Map_set_absent)

lemma cacheResult_full:
  assumes "Map_size c \<ge> maxCacheSize" and "[] \<notin> fst ` set c" and "key \<notin> fst ` set c"
  shows "cacheResult c key m = tl c @ [(key, m)]"
proof (cases c)
  case Nil
  with assms(1) show ?thesis by (simp add: Map_size_def maxCacheSize_def)
next
  case (Cons e rest)
  obtain k0 v0 where e: "e = (k0, v0)" by (cases e)
  from assms(2) Cons e have "k0 \<noteq> []" by auto
  moreover from assms(3) Cons have "key \<notin> fst ` set rest" by auto
  ultimately show ?thesis
    using assms(1) Cons e by (simp add: cacheResult_def Map_set_absent)
qed

lemma cacheResult_get: "Map_get (cacheResult c key m) key = Some m"
  by (simp add: cacheResult_def Let_def Map_get_set_same)

lemma cacheResult_size:
  assumes "Map_size c \<le> maxCacheSize" and "[] \<notin> fst ` set c"
  shows "Map_size (cacheResult c key m) \<le> maxCacheSize"
proof (cases "Map_size c \<ge> maxCacheSize")
  case False
  then show ?thesis
    using length_Map_set [of c key m] by (simp add: cacheResult_def Map_size_def)
next
  case True
  then obtain k0 v0 rest where c: "c = (k0, v0) # rest"
    by (cases c) (auto simp: Map_size_def maxCacheSize_def)
  with assms(2) have "k0 \<noteq> []" by auto
  with True c assms(1) show ?thesis
    using length_Map_set [of rest key m] by (simp add: cacheResult_def Map_size_def)
qed

lemma cacheResult_keys:
  assumes "[] \<notin> fst ` set c" and "key \<noteq> []"
  shows "[] \<notin> fst ` set (cacheResult c key m)"
proof -
  have "fst ` set (cacheResult c key m) \<subseteq> insert key (fst ` set c)"
    using keys_Map_delete [of c]
    by (auto simp: cacheResult_def Let_def keys_Map_set split: list.splits if_splits)
  with assms show ?thesis by auto
qed

lemma Random_hit:
  "Map_get (cache s) (cacheKey (changeInCents t) (code cur)) = Some m \<Longrightarrow>
   Random_calculateChange s t cur
     = (\<lparr> totalChangeInCents = changeInCents t, resultDenominations = m,
           formattedOutput = Random_formatOutput m \<rparr>, s)"
  by (simp add: Random_calculateChange_def Let_def)

lemma Random_miss_success:
  "Map_get (cache s) (cacheKey (changeInCents t) (code cur)) = None \<Longrightarrow>
   generateOptimizedRandomCombination (changeInCents t) cur (random s) = (Some m, g') \<Longrightarrow>
   Random_calculateChange s t cur
     = (\<lparr> totalChangeInCents = changeInCents t, resultDenominations = m,
           formattedOutput = Random_formatOutput m \<rparr>,
        \<lparr> cache = cacheResult (cache s) (cacheKey (changeInCents t) (code cur)) m, random = g' \<rparr>)"
  by (simp add: Random_calculateChange_def Let_def)

lemma Random_miss_fallback:
  "Map_get (cache s) (cacheKey (changeInCents t) (code cur)) = None \<Longrightarrow>
   generateOptimizedRandomCombination (changeInCents t) cur (random s) = (None, g') \<Longrightarrow>
   Random_calculateChange s t cur = (Greedy_calculateChange t cur, s\<lparr> random := g' \<rparr>)"
  by (simp add: Random_calculateChange_def Let_def)

lemma cache_inv_calculate:
  assumes "cache_inv (cache s)"
  shows "cache_inv (cache (snd (Random_calculateChange s t cur)))"
proof (cases "Map_get (cache s) (cacheKey (changeInCents t) (code cur))")
  case (Some m)
  with assms show ?thesis by (simp add: Random_hit)
next
  case None
  obtain r g' where g: "generateOptimizedRandomCombination (changeInCents t) cur (random s) = (r, g')"
    by (cases "generateOptimizedRandomCombination (changeInCents t) cur (random s)")
  show ?thesis
  proof (cases r)
    case None': None
    with None g assms show ?thesis by (simp add: Random_miss_fallback)
  next
    case (Some m)
    with None g assms show ?thesis
      by (simp add: Random_miss_success cache_inv_def cacheResult_size cacheResult_keys cacheKey_nonempty)
  qed
qed

lemma cache_inv_operation: "cache_inv (cache s) \<Longrightarrow> cache_inv (cache (apply_operation s op))"
  by (cases op) (simp_all add: cache_inv_calculate clearCache_def, simp add: cache_inv_def Map_size_def)

lemma cache_inv_run: "cache_inv (cache s) \<Longrightarrow> cache_inv (cache (run_operations s ops))"
  unfolding run_operations_def
  by (induction ops arbitrary: s) (simp_all add: cache_inv_operation)

lemma cache_inv_new: "cache_inv (cache (RandomChangeStrategy_new seed g))"
  by (simp add: cache_inv_def RandomChangeStrategy_new_def Map_size_def)

section \<open>A run that fills the cache\<close>

lemma seed_of_Some: "seed_of g = Some sd \<Longrightarrow> g = Seeded sd"
  by (cases g) (simp_all add: seed_of_def)

lemma seeded_nonneg_draw:
  assumes "seeded_nonneg g"
  shows "0 \<le> fst (Math_random g) \<and> fst (Math_random g) < 1 \<and> seeded_nonneg (next_random g)"
proof -
  from assms obtain sd where g: "g = Seeded sd" and sd: "0 \<le> sd"
    by (cases g) (simp_all add: seeded_nonneg_def)
  define a where "a = sd * 9301 + 49297"
  from sd have a: "0 \<le> a" by (simp add: a_def)
  have t: "trunc_rem a 233280 = a mod 233280"
    using a by (simp add: trunc_rem_def sgn_if)
  have lo: "0 \<le> a mod 233280" and hi: "a mod 233280 < 233280"
    by simp_all
  have r: "fst (Math_random g) = of_int (a mod 233280) / 233280"
    and n: "next_random g = Seeded (a mod 233280)"
    by (simp_all add: g next_random_def Let_def t a_def [symmetric])
  have "(of_int (a mod 233280) :: rat) < 233280"
    using hi by (metis of_int_less_iff of_int_numeral)
  with lo show ?thesis
    by (simp add: r n seeded_nonneg_def)
qed

lemma seeded_nonneg_funpow: "seeded_nonneg g \<Longrightarrow> seeded_nonneg ((next_random ^^ n) g)"
  by (induction n) (simp_all add: seeded_nonneg_draw)

lemma penny_step:
  assumes "0 \<le> fst (Math_random g)" and "fst (Math_random g) < 1"
  shows "generateOptimizedRandomCombination 1 (penny_table k) g = (Some [(''penny'', 1)], next_random g)"
proof -
  let ?p = "\<lparr> name = ''penny'', valueInCents = 1, symbol = None \<rparr>"
  have s: "sortedDenominations (penny_table k) = [?p]"
    by (simp add: sortedDenominations_def penny_table_def)
  have n: "maxAttempts div length [BiasTowardsLarger, UniformDistribution, BiasTowardsSmaller] = 166"
    by (simp add: maxAttempts_def)
  from assms have fl: "\<lfloor>fst (Math_random g)\<rfloor> = 0"
    by (simp add: floor_eq_iff)
  have c1: "\<lceil>(3 / 5 :: rat)\<rceil> = 1" and c2: "\<lceil>(9 / 10 :: rat)\<rceil> = 1"
    by (simp_all add: ceiling_eq_iff)
  have h: "generateRandomWithBiasTowardsLarger 1 [?p] g = ([(''penny'', 1)], next_random g)"
    by (simp add: generateRandomWithBiasTowardsLarger_def floor_div_def Let_def fl c1 c2 next_random_def)
  have v: "isValidCombination [(''penny'', 1)] 1 (penny_table k)"
    by (simp add: isValidCombination_def penny_table_def)
  have a: "attempts_loop 166 BiasTowardsLarger 1 [?p] (penny_table k) g
             = (Some [(''penny'', 1)], next_random g)"
    using attempts_loop.simps(2) [of 165 BiasTowardsLarger 1 "[?p]" "penny_table k" g]
    by (simp add: h v Let_def)
  show ?thesis
    unfolding generateOptimizedRandomCombination_def Let_def s n
    by (simp add: a)
qed

lemma fill_key_inj: "cacheKey 1 (fill_code i) = cacheKey 1 (fill_code j) \<longleftrightarrow> i = j"
proof
  assume "cacheKey 1 (fill_code i) = cacheKey 1 (fill_code j)"
  then have "length (fill_code i) = length (fill_code j)"
    by (simp add: cacheKey_def)
  then show "i = j" by (simp add: fill_code_def)
qed simp

lemma fill_step:
  assumes g: "seeded_nonneg g" and k: "cacheKey 1 (fill_code j) \<notin> fst ` set C"
  shows "apply_operation \<lparr> cache = C, random = g \<rparr> (fill_operation j)
           = \<lparr> cache = cacheResult C (cacheKey 1 (fill_code j)) [(''penny'', 1)],
               random = next_random g \<rparr>"
proof -
  let ?s = "\<lparr> cache = C, random = g \<rparr>"
  let ?t = "transaction_of 0 1"
  let ?cur = "penny_table (fill_code j)"
  have c: "changeInCents ?t = 1" and cd: "code ?cur = fill_code j"
    by (simp_all add: transaction_of_def penny_table_def)
  from k have miss: "Map_get (cache ?s) (cacheKey (changeInCents ?t) (code ?cur)) = None"
    by (simp add: c cd Map_get_None_iff)
  from g have gen: "generateOptimizedRandomCombination (changeInCents ?t) ?cur (random ?s)
                      = (Some [(''penny'', 1)], next_random g)"
    by (simp add: c penny_step seeded_nonneg_draw)
  from Random_miss_success [OF miss gen] show ?thesis
    by (simp add: fill_operation_def c cd)
qed

lemma fill_run:
  assumes g: "seeded_nonneg g"
    and fresh: "\<forall>j. cacheKey 1 (fill_code j) \<notin> fst ` set C"
    and room: "length C + n \<le> 1000"
  shows "run_operations \<lparr> cache = C, random = g \<rparr> (fill_operations n)
           = \<lparr> cache = C @ map fill_entry [0..<n], random = (next_random ^^ n) g \<rparr>"
  using room
proof (induction n)
  case 0
  show ?case by (simp add: run_operations_def fill_operations_def)
next
  case (Suc n)
  let ?C = "C @ map fill_entry [0..<n]"
  let ?g = "(next_random ^^ n) g"
  from Suc have ih: "run_operations \<lparr> cache = C, random = g \<rparr> (fill_operations n)
                       = \<lparr> cache = ?C, random = ?g \<rparr>"
    by simp
  have new: "cacheKey 1 (fill_code n) \<notin> fst ` set ?C"
    using fresh by (auto simp: fill_entry_def fill_key_inj)
  have below: "Map_size ?C < maxCacheSize"
    using Suc.prems by (simp add: Map_size_def maxCacheSize_def)
  have "run_operations \<lparr> cache = C, random = g \<rparr> (fill_operations (Suc n))
          = apply_operation \<lparr> cache = ?C, random = ?g \<rparr> (fill_operation n)"
    using ih by (simp add: run_operations_def fill_operations_def)
  also have "\<dots> = \<lparr> cache = cacheResult ?C (cacheKey 1 (fill_code n)) [(''penny'', 1)],
                      random = next_random ?g \<rparr>"
    by (rule fill_step [OF seeded_nonneg_funpow [OF g] new])
  also have "cacheResult ?C (cacheKey 1 (fill_code n)) [(''penny'', 1)] = ?C @ [fill_entry n]"
    using cacheResult_below [OF below new] by (simp add: fill_entry_def)
  finally show ?case by simp
qed

section \<open>A concrete run: one cached result, then a thousand other keys\<close>

lemma number_to_string_examples:
  "number_to_string 1 = ''1''" "number_to_string 75 = ''75''"
  by code_simp+

lemma example_first_result:
  "fst (generateOptimizedRandomCombination 75 US_CURRENCY (Seeded 12345)) = Some example_snapshot"
  "seed_of (snd (generateOptimizedRandomCombination 75 US_CURRENCY (Seeded 12345))) = Some 82116"
  by code_simp+

lemma example_first_generate:
  "generateOptimizedRandomCombination 75 US_CURRENCY (Seeded 12345)
     = (Some example_snapshot, Seeded 82116)"
  using example_first_result seed_of_Some by (simp add: prod_eq_iff)

lemma example_keys:
  "cacheKey (changeInCents (transaction_of 0 75)) (code US_CURRENCY) = ''75-USD''"
  "cacheKey 75 (code US_CURRENCY) = ''75-USD''"
  "cacheKey 1 (fill_code j) \<noteq> ''75-USD''"
  by (simp_all add: cacheKey_def transaction_of_def US_CURRENCY_def number_to_string_examples)

lemma example_first_state:
  "Random_calculateChange example_seeded (transaction_of 0 75) US_CURRENCY
     = (\<lparr> totalChangeInCents = 75, resultDenominations = example_snapshot,
           formattedOutput = Random_formatOutput example_snapshot \<rparr>,
        \<lparr> cache = [(''75-USD'', example_snapshot)], random = Seeded 82116 \<rparr>)"
proof -
  have m: "Map_get (cache example_seeded)
             (cacheKey (changeInCents (transaction_of 0 75)) (code US_CURRENCY)) = None"
    by (simp add: example_seeded_def RandomChangeStrategy_new_def)
  have g: "generateOptimizedRandomCombination (changeInCents (transaction_of 0 75)) US_CURRENCY
             (random example_seeded) = (Some example_snapshot, Seeded 82116)"
    using example_first_generate
    by (simp add: example_seeded_def RandomChangeStrategy_new_def setupSeededRandom_def
          transaction_of_def)
  from Random_miss_success [OF m g] show ?thesis
    by (simp add: example_keys cacheResult_def Map_size_def maxCacheSize_def
          example_seeded_def RandomChangeStrategy_new_def transaction_of_def)
qed

lemma example_full_state:
  "run_operations example_seeded (example_first # fill_operations 999)
     = \<lparr> cache = (''75-USD'', example_snapshot) # map fill_entry [0..<999],
         random = (next_random ^^ 999) (Seeded 82116) \<rparr>"
proof -
  have g: "seeded_nonneg (Seeded 82116)"
    by (simp add: seeded_nonneg_def)
  have fresh: "\<forall>j. cacheKey 1 (fill_code j) \<notin> fst ` set [(''75-USD'', example_snapshot)]"
    by (simp add: example_keys)
  have room: "length [(''75-USD'', example_snapshot)] + 999 \<le> 1000"
    by simp
  from fill_run [OF g fresh room] show ?thesis
    by (simp add: run_operations_def example_first_def example_first_state)
qed

lemma example_evicted_state:
  "run_operations example_seeded (example_first # fill_operations 1000)
     = \<lparr> cache = map fill_entry [0..<1000], random = (next_random ^^ 1000) (Seeded 82116) \<rparr>"
proof -
  let ?C = "(''75-USD'', example_snapshot) # map fill_entry [0..<999]"
  let ?g = "(next_random ^^ 999) (Seeded 82116)"
  have split: "fill_operations 1000 = fill_operations 999 @ [fill_operation 999]"
    using upt_Suc_append [of 0 999] by (simp add: fill_operations_def)
  have g: "seeded_nonneg ?g"
    by (rule seeded_nonneg_funpow) (simp add: seeded_nonneg_def)
  have new: "cacheKey 1 (fill_code 999) \<notin> fst ` set ?C"
    by (auto simp: example_keys fill_entry_def fill_key_inj)
  have full: "Map_size ?C \<ge> maxCacheSize"
    by (simp add: Map_size_def maxCacheSize_def)
  have keys: "[] \<notin> fst ` set ?C"
    by (auto simp: fill_entry_def cacheKey_nonempty cacheKey_nonempty [symmetric])
  have "run_operations example_seeded (example_first # fill_operations 1000)
          = apply_operation (run_operations example_seeded (example_first # fill_operations 999))
              (fill_operation 999)"
    by (simp add: run_operations_def split)
  also have "\<dots> = apply_operation \<lparr> cache = ?C, random = ?g \<rparr> (fill_operation 999)"
    by (simp only: example_full_state)
  also have "\<dots> = \<lparr> cache = cacheResult ?C (cacheKey 1 (fill_code 999)) [(''penny'', 1)],
                      random = next_random ?g \<rparr>"
    by (rule fill_step [OF g new])
  also have "cacheResult ?C (cacheKey 1 (fill_code 999)) [(''penny'', 1)]
               = tl ?C @ [(cacheKey 1 (fill_code 999), [(''penny'', 1)])]"
    by (rule cacheResult_full [OF full keys new])
  also have "tl ?C @ [(cacheKey 1 (fill_code 999), [(''penny'', 1)])] = map fill_entry [0..<1000]"
    using upt_Suc_append [of 0 999] by (simp add: fill_entry_def)
  also have "next_random ?g = (next_random ^^ 1000) (Seeded 82116)"
    using funpow.simps(2) [of 999 next_random] by simp
  finally show ?thesis .
qed

lemma example_recomputed:
  "fst (generateOptimizedRandomCombination 75 US_CURRENCY ((next_random ^^ 1000) (Seeded 82116)))
     = Some [(''quarter'', 3)]"
  by code_simp

section \<open>Cache hits\<close>

lemma changeInCents_transaction_of: "changeInCents (transaction_of a b) = b - a"
  by (simp add: transaction_of_def)

lemma code_US_CURRENCY: "code US_CURRENCY = ''USD''"
  by (simp add: US_CURRENCY_def)

text \<open>
  C5 (as amended). While the cache of a strategy instance holds a mapping under the key of a
  change amount and a currency code, every call of \<open>calculateChange\<close> with that change amount
  and a currency of that code returns the mapping, formatted afresh, and changes neither the
  cache nor the random generator, whatever the denomination table of the currency passed and
  whatever the state of the generator. A call that misses the cache and finds a valid
  candidate stores it, so this holds for the calls that follow it for as long as the entry
  stays in the cache.
\<close>

theorem cache_hit_returns_snapshot:
  "(Map_get (cache s) (cacheKey (changeInCents t) (code cur)) = Some m \<longrightarrow>
      Random_calculateChange s t cur
        = (\<lparr> totalChangeInCents = changeInCents t, resultDenominations = m,
              formattedOutput = Random_formatOutput m \<rparr>, s))
   \<and> (Map_get (cache s) (cacheKey (changeInCents t) (code cur)) = None
        \<and> generateOptimizedRandomCombination (changeInCents t) cur (random s) = (Some m, g') \<longrightarrow>
      (\<forall>t' cur' g''. changeInCents t' = changeInCents t \<and> code cur' = code cur \<longrightarrow>
         Random_calculateChange ((snd (Random_calculateChange s t cur))\<lparr> random := g'' \<rparr>) t' cur'
           = (\<lparr> totalChangeInCents = changeInCents t, resultDenominations = m,
                 formattedOutput = Random_formatOutput m \<rparr>,
              (snd (Random_calculateChange s t cur))\<lparr> random := g'' \<rparr>)))"
proof (intro conjI impI allI)
  assume "Map_get (cache s) (cacheKey (changeInCents t) (code cur)) = Some m"
  then show "Random_calculateChange s t cur
        = (\<lparr> totalChangeInCents = changeInCents t, resultDenominations = m,
              formattedOutput = Random_formatOutput m \<rparr>, s)"
    by (rule Random_hit)
next
  fix t' :: Transaction and cur' :: Currency and g'' :: rng
  assume a: "Map_get (cache s) (cacheKey (changeInCents t) (code cur)) = None
        \<and> generateOptimizedRandomCombination (changeInCents t) cur (random s) = (Some m, g')"
    and b: "changeInCents t' = changeInCents t \<and> code cur' = code cur"
  let ?s1 = "(snd (Random_calculateChange s t cur))\<lparr> random := g'' \<rparr>"
  from a have "cache ?s1 = cacheResult (cache s) (cacheKey (changeInCents t) (code cur)) m"
    by (simp add: Random_miss_success)
  with b have "Map_get (cache ?s1) (cacheKey (changeInCents t') (code cur')) = Some m"
    by (simp add: cacheResult_get)
  with b show "Random_calculateChange ?s1 t' cur'
           = (\<lparr> totalChangeInCents = changeInCents t, resultDenominations = m,
                 formattedOutput = Random_formatOutput m \<rparr>, ?s1)"
    using Random_hit [of ?s1 t' cur' m] by simp
qed

theorem cache_hit_returns_snapshot_witness:
  "Random_calculateChange \<lparr> cache = [(''75-USD'', example_snapshot)], random = Native (\<lambda>i. 1 / 2) 7 \<rparr>
       (transaction_of 25 100) (penny_table ''USD'')
     = (\<lparr> totalChangeInCents = 75, resultDenominations = example_snapshot,
           formattedOutput = Random_formatOutput example_snapshot \<rparr>,
        \<lparr> cache = [(''75-USD'', example_snapshot)], random = Native (\<lambda>i. 1 / 2) 7 \<rparr>)"
proof -
  let ?t = "transaction_of 0 75"
  have 1: "Map_get (cache example_seeded) (cacheKey (changeInCents ?t) (code US_CURRENCY)) = None
        \<and> generateOptimizedRandomCombination (changeInCents ?t) US_CURRENCY (random example_seeded)
            = (Some example_snapshot, Seeded 82116)"
    using example_first_generate
    by (simp add: example_seeded_def RandomChangeStrategy_new_def setupSeededRandom_def
          transaction_of_def)
  have 2: "changeInCents (transaction_of 25 100) = changeInCents ?t
        \<and> code (penny_table ''USD'') = code US_CURRENCY"
    by (simp add: transaction_of_def penny_table_def US_CURRENCY_def)
  from cache_hit_returns_snapshot [of example_seeded ?t US_CURRENCY example_snapshot "Seeded 82116"] 1 2
  have "Random_calculateChange
          ((snd (Random_calculateChange example_seeded ?t US_CURRENCY))\<lparr> random := Native (\<lambda>i. 1 / 2) 7 \<rparr>)
          (transaction_of 25 100) (penny_table ''USD'')
        = (\<lparr> totalChangeInCents = changeInCents ?t, resultDenominations = example_snapshot,
              formattedOutput = Random_formatOutput example_snapshot \<rparr>,
           (snd (Random_calculateChange example_seeded ?t US_CURRENCY))\<lparr> random := Native (\<lambda>i. 1 / 2) 7 \<rparr>)"
    by blast
  then show ?thesis
    by (simp add: example_first_state changeInCents_transaction_of)
qed

text \<open>
  The claim as it is written fails when the entry has been evicted: after the result for 75
  cents has been cached and a thousand other keys have been stored, the same call on the same
  instance returns another mapping.
\<close>

theorem cache_hit_counterexample:
  "fst (generateOptimizedRandomCombination 75 US_CURRENCY (random example_seeded))
     = Some example_snapshot
   \<and> Map_get (cache (run_operations example_seeded [example_first])) (cacheKey 75 ''USD'')
     = Some example_snapshot
   \<and> resultDenominations
       (fst (Random_calculateChange
              (run_operations example_seeded (example_first # fill_operations 1000))
              (transaction_of 0 75) US_CURRENCY))
     = [(''quarter'', 3)]
   \<and> [(''quarter'', 3)] \<noteq> example_snapshot"
proof -
  let ?t = "transaction_of 0 75"
  let ?s = "\<lparr> cache = map fill_entry [0..<1000], random = (next_random ^^ 1000) (Seeded 82116) \<rparr>"
  have 1: "fst (generateOptimizedRandomCombination 75 US_CURRENCY (random example_seeded))
             = Some example_snapshot"
    by (simp add: example_seeded_def RandomChangeStrategy_new_def setupSeededRandom_def
          example_first_result)
  have 2: "Map_get (cache (run_operations example_seeded [example_first])) (cacheKey 75 ''USD'')
             = Some example_snapshot"
    using example_keys(2)
    by (simp add: run_operations_def example_first_def example_first_state code_US_CURRENCY)
  have miss: "Map_get (cache ?s) (cacheKey (changeInCents ?t) (code US_CURRENCY)) = None"
    by (auto simp: Map_get_None_iff example_keys example_keys(3) [symmetric] fill_entry_def)
  obtain g' where gen: "generateOptimizedRandomCombination (changeInCents ?t) US_CURRENCY (random ?s)
                          = (Some [(''quarter'', 3)], g')"
    using example_recomputed
    by (cases "generateOptimizedRandomCombination 75 US_CURRENCY ((next_random ^^ 1000) (Seeded 82116))")
       (simp add: transaction_of_def)
  have 3: "resultDenominations (fst (Random_calculateChange ?s ?t US_CURRENCY)) = [(''quarter'', 3)]"
    by (simp add: Random_miss_success [OF miss gen])
  have 4: "[(''quarter'', 3)] \<noteq> example_snapshot"
    by (simp add: example_snapshot_def)
  from 1 2 3 4 show ?thesis
    by (simp only: example_evicted_state simp_thms)
qed

section \<open>The bound of the cache and the order of eviction\<close>

text \<open>
  C7. In every state that a strategy instance reaches from its construction, by any calls of
  \<open>calculateChange\<close> and \<open>clearCache\<close> and any behaviour of the random generator, the cache
  holds at most 1000 entries. When a call stores a new result, the result goes to the end of
  the insertion order, and when the cache is at capacity the first entry in insertion order
  (the oldest one) is removed. A call that finds its key in the cache leaves the cache, and
  so the order of eviction, as it was.
\<close>

theorem cache_bounded_insertion_order:
  assumes "s = run_operations (RandomChangeStrategy_new seed g) ops"
  shows "Map_size (cache s) \<le> 1000
   \<and> Map_size (cache (apply_operation s op)) \<le> 1000
   \<and> (Map_get (cache s) (cacheKey (changeInCents t) (code cur)) = None
        \<and> generateOptimizedRandomCombination (changeInCents t) cur (random s) = (Some m, g') \<longrightarrow>
      cache (snd (Random_calculateChange s t cur))
        = (if Map_size (cache s) = 1000 then tl (cache s) else cache s)
            @ [(cacheKey (changeInCents t) (code cur), m)])
   \<and> (Map_get (cache s) (cacheKey (changeInCents t) (code cur)) = Some m \<longrightarrow>
      snd (Random_calculateChange s t cur) = s)"
proof -
  have inv: "cache_inv (cache s)"
    unfolding assms by (rule cache_inv_run [OF cache_inv_new])
  then have 1: "Map_size (cache s) \<le> 1000"
    by (simp add: cache_inv_def maxCacheSize_def)
  from inv have "cache_inv (cache (apply_operation s op))"
    by (rule cache_inv_operation)
  then have 2: "Map_size (cache (apply_operation s op)) \<le> 1000"
    by (simp add: cache_inv_def maxCacheSize_def)
  have 3: "cache (snd (Random_calculateChange s t cur))
        = (if Map_size (cache s) = 1000 then tl (cache s) else cache s)
            @ [(cacheKey (changeInCents t) (code cur), m)]"
    if miss: "Map_get (cache s) (cacheKey (changeInCents t) (code cur)) = None"
      and gen: "generateOptimizedRandomCombination (changeInCents t) cur (random s) = (Some m, g')"
  proof -
    let ?key = "cacheKey (changeInCents t) (code cur)"
    from miss have new: "?key \<notin> fst ` set (cache s)"
      by (simp add: Map_get_None_iff)
    have c: "cache (snd (Random_calculateChange s t cur)) = cacheResult (cache s) ?key m"
      by (simp add: Random_miss_success [OF miss gen])
    show ?thesis
    proof (cases "Map_size (cache s) = 1000")
      case True
      then have "Map_size (cache s) \<ge> maxCacheSize"
        by (simp add: maxCacheSize_def)
      from cacheResult_full [OF this _ new] inv True c show ?thesis
        by (simp add: cache_inv_def)
    next
      case False
      with 1 have "Map_size (cache s) < maxCacheSize"
        by (simp add: maxCacheSize_def)
      from cacheResult_below [OF this new] False c show ?thesis
        by simp
    qed
  qed
  have 4: "snd (Random_calculateChange s t cur) = s"
    if "Map_get (cache s) (cacheKey (changeInCents t) (code cur)) = Some m"
    using that by (simp add: Random_hit)
  from 1 2 3 4 show ?thesis by blast
qed

theorem cache_bounded_insertion_order_witness:
  "Map_size (cache (run_operations example_seeded (example_first # fill_operations 999))) = 1000
   \<and> hd (cache (run_operations example_seeded (example_first # fill_operations 999)))
       = (''75-USD'', example_snapshot)
   \<and> cache (snd (Random_calculateChange
                   (run_operations example_seeded (example_first # fill_operations 999))
                   (transaction_of 0 1) (penny_table (fill_code 999))))
       = tl (cache (run_operations example_seeded (example_first # fill_operations 999)))
           @ [(cacheKey 1 (fill_code 999), [(''penny'', 1)])]
   \<and> snd (Random_calculateChange
             (run_operations example_seeded (example_first # fill_operations 999))
             (transaction_of 0 75) US_CURRENCY)
       = run_operations example_seeded (example_first # fill_operations 999)"
proof -
  let ?s = "run_operations example_seeded (example_first # fill_operations 999)"
  let ?t = "transaction_of 0 1"
  let ?cur = "penny_table (fill_code 999)"
  have r: "?s = run_operations (RandomChangeStrategy_new (Some 12345) (Native (\<lambda>i. 0) 0))
                  (example_first # fill_operations 999)"
    by (simp add: example_seeded_def)
  have size: "Map_size (cache ?s) = 1000"
    by (simp add: example_full_state Map_size_def)
  have c: "changeInCents ?t = 1" "code ?cur = fill_code 999"
    by (simp_all add: changeInCents_transaction_of penny_table_def)
  have miss: "Map_get (cache ?s) (cacheKey (changeInCents ?t) (code ?cur)) = None"
    by (auto simp: c example_full_state Map_get_None_iff example_keys example_keys(3) [symmetric]
          fill_entry_def fill_key_inj)
  have "seeded_nonneg (Seeded 82116)"
    by (simp add: seeded_nonneg_def)
  then have "seeded_nonneg (random ?s)"
    by (simp add: example_full_state seeded_nonneg_funpow)
  then have gen: "generateOptimizedRandomCombination (changeInCents ?t) ?cur (random ?s)
                    = (Some [(''penny'', 1)], next_random (random ?s))"
    by (simp add: c penny_step seeded_nonneg_draw)
  have hit: "Map_get (cache ?s) (cacheKey (changeInCents (transaction_of 0 75)) (code US_CURRENCY))
               = Some example_snapshot"
    by (simp add: example_full_state example_keys)
  from cache_bounded_insertion_order
         [OF r, of _ ?t ?cur "[(''penny'', 1)]" "next_random (random ?s)"] miss gen size
  have e: "cache (snd (Random_calculateChange ?s ?t ?cur))
             = tl (cache ?s) @ [(cacheKey (changeInCents ?t) (code ?cur), [(''penny'', 1)])]"
    by simp
  from cache_bounded_insertion_order
         [OF r, of _ "transaction_of 0 75" US_CURRENCY example_snapshot] hit
  have h: "snd (Random_calculateChange ?s (transaction_of 0 75) US_CURRENCY) = ?s"
    by simp
  have hd: "hd (cache ?s) = (''75-USD'', example_snapshot)"
    by (simp add: example_full_state)
  from size hd e h show ?thesis
    by (simp only: c simp_thms)
qed

section \<open>Batch processing\<close>

lemma map_loop_acc:
  "map_loop mul calc txs acc s =
     (case map_loop mul calc txs [] s of
        (Inl e, s') \<Rightarrow> (Inl e, s')
      | (Inr outs, s') \<Rightarrow> (Inr (acc @ outs), s'))"
proof (induction txs arbitrary: acc s)
  case Nil
  show ?case by simp
next
  case (Cons tx txs)
  obtain a b where tx: "tx = (a, b)" by (cases tx)
  obtain r s1 where c: "Calculator_calculateChange calc s (Math_round (mul a 100))
                           (Math_round (mul b 100)) = (r, s1)"
    by (cases "Calculator_calculateChange calc s (Math_round (mul a 100)) (Math_round (mul b 100))")
  show ?case
  proof (cases r)
    case (Inl e)
    with tx c show ?thesis by simp
  next
    case (Inr res)
    obtain q s2 where m: "map_loop mul calc txs [] s1 = (q, s2)"
      by (cases "map_loop mul calc txs [] s1")
    from Cons [of "acc @ [formattedOutput res]" s1] Cons [of "[formattedOutput res]" s1] m
    show ?thesis
      using tx c Inr by (cases q) simp_all
  qed
qed

lemma processTransactions_Cons:
  "processTransactions mul calc s ((a, b) # rest) =
     (case Calculator_calculateChange calc s (Math_round (mul a 100)) (Math_round (mul b 100)) of
        (Inl e, s') \<Rightarrow> (Inl e, s')
      | (Inr r, s') \<Rightarrow>
          (case processTransactions mul calc s' rest of
             (Inl e, s'') \<Rightarrow> (Inl e, s'')
           | (Inr outs, s'') \<Rightarrow> (Inr (formattedOutput r # outs), s'')))"
proof -
  obtain r s1 where c: "Calculator_calculateChange calc s (Math_round (mul a 100))
                           (Math_round (mul b 100)) = (r, s1)"
    by (cases "Calculator_calculateChange calc s (Math_round (mul a 100)) (Math_round (mul b 100))")
  show ?thesis
  proof (cases r)
    case (Inl e)
    with c show ?thesis by (simp add: processTransactions_def)
  next
    case (Inr res)
    with c map_loop_acc [of mul calc rest "[formattedOutput res]" s1] show ?thesis
      by (simp add: processTransactions_def split: prod.splits sum.splits)
  qed
qed

lemma processTransactions_length:
  "fst (processTransactions mul calc s txs) = Inr outs \<Longrightarrow> length outs = length txs"
proof (induction txs arbitrary: s outs)
  case Nil
  then show ?case by (simp add: processTransactions_def)
next
  case (Cons tx txs)
  obtain a b where tx: "tx = (a, b)" by (cases tx)
  obtain r s1 where c: "Calculator_calculateChange calc s (Math_round (mul a 100))
                           (Math_round (mul b 100)) = (r, s1)"
    by (cases "Calculator_calculateChange calc s (Math_round (mul a 100)) (Math_round (mul b 100))")
  obtain q s2 where p: "processTransactions mul calc s1 txs = (q, s2)"
    by (cases "processTransactions mul calc s1 txs")
  from Cons.prems tx c p obtain res outs' where r: "r = Inr res" and q: "q = Inr outs'"
    and o: "outs = formattedOutput res # outs'"
    by (cases r; cases q) (auto simp: processTransactions_Cons)
  from Cons.IH [of s1 outs'] p q have "length outs' = length txs" by simp
  with o show ?case by simp
qed

lemma Math_round_nearest:
  "x - 1 / 2 < of_int (Math_round x) \<and> of_int (Math_round x) \<le> x + 1 / 2"
  unfolding Math_round_def by linarith

lemma Math_round_nonneg: "0 \<le> x \<Longrightarrow> Math_round x = round_half_away_from_zero x"
  by (simp add: Math_round_def round_half_away_from_zero_def)

text \<open>
  C8 (as amended). \<open>processTransactions\<close> converts each amount to cents with
  \<open>Math.round\<close> of its product with 100, that is to the nearest integer with ties towards
  \<open>+\<infinity>\<close>, which is rounding with ties away from zero when the product is not negative. It
  processes the pairs in order, each in the state that the pairs before it left: the empty
  list gives the empty list; the output of a pair comes before the outputs of the pairs after
  it; a list of outputs has the length of the input; and when a pair fails validation the
  batch fails with the error of the first such pair and returns no outputs.
\<close>

theorem processTransactions_batch:
  "processTransactions mul calc s [] = (Inr [], s)
   \<and> processTransactions mul calc s ((a, b) # rest) =
       (case Calculator_calculateChange calc s (Math_round (mul a 100)) (Math_round (mul b 100)) of
          (Inl e, s') \<Rightarrow> (Inl e, s')
        | (Inr r, s') \<Rightarrow>
            (case processTransactions mul calc s' rest of
               (Inl e, s'') \<Rightarrow> (Inl e, s'')
             | (Inr outs, s'') \<Rightarrow> (Inr (formattedOutput r # outs), s'')))
   \<and> (\<forall>outs. fst (processTransactions mul calc s txs) = Inr outs \<longrightarrow> length outs = length txs)
   \<and> x - 1 / 2 < of_int (Math_round x) \<and> of_int (Math_round x) \<le> x + 1 / 2
   \<and> (0 \<le> x \<longrightarrow> Math_round x = round_half_away_from_zero x)"
  using processTransactions_Cons [of mul calc s a b rest] Math_round_nearest [of x]
  by (simp add: processTransactions_length Math_round_nonneg)
     (simp add: processTransactions_def)

lemma batch_example:
  "fst (processTransactions (*)
          (ChangeCalculator_new US_CURRENCY (Some \<lparr> divisor = 3, description = ''rule'' \<rparr>))
          \<lparr> cache = [], random = Seeded 1 \<rparr>
          [(212 / 100, 3), (197 / 100, 2), (333 / 100, 5)])
     = Inr [''3 quarters,1 dime,3 pennies'', ''3 pennies'',
            ''1 dollar,2 quarters,1 dime,1 nickel,2 pennies'']"
  by code_simp

theorem processTransactions_batch_witness:
  "fst (processTransactions (*)
          (ChangeCalculator_new US_CURRENCY (Some \<lparr> divisor = 3, description = ''rule'' \<rparr>))
          \<lparr> cache = [], random = Seeded 1 \<rparr>
          [(212 / 100, 3), (197 / 100, 2), (333 / 100, 5)])
     = Inr [''3 quarters,1 dime,3 pennies'', ''3 pennies'',
            ''1 dollar,2 quarters,1 dime,1 nickel,2 pennies'']
   \<and> length [''3 quarters,1 dime,3 pennies'', ''3 pennies'',
              ''1 dollar,2 quarters,1 dime,1 nickel,2 pennies'']
       = length [(212 / 100, 3), (197 / 100, 2), (333 / 100, 5) :: rat \<times> rat]
   \<and> Math_round (5 / 2) = round_half_away_from_zero (5 / 2)"
proof -
  let ?calc = "ChangeCalculator_new US_CURRENCY (Some \<lparr> divisor = 3, description = ''rule'' \<rparr>)"
  let ?s = "\<lparr> cache = [], random = Seeded 1 \<rparr>"
  let ?txs = "[(212 / 100, 3), (197 / 100, 2), (333 / 100, 5) :: rat \<times> rat]"
  let ?outs = "[''3 quarters,1 dime,3 pennies'', ''3 pennies'',
                ''1 dollar,2 quarters,1 dime,1 nickel,2 pennies'']"
  note t = processTransactions_batch [of "(*)" ?calc ?s 0 0 "[]" ?txs "5 / 2"]
  have h: "(0 :: rat) \<le> 5 / 2" by simp
  have 1: "length ?outs = length ?txs"
    by (rule t [THEN conjunct2, THEN conjunct2, THEN conjunct1, rule_format, OF batch_example])
  have 2: "Math_round (5 / 2) = round_half_away_from_zero (5 / 2)"
    by (rule t [THEN conjunct2, THEN conjunct2, THEN conjunct2, THEN conjunct2, THEN conjunct2,
                rule_format, OF h])
  from batch_example 1 2 show ?thesis by (intro conjI)
qed

text \<open>
  The claim as it is written fails for negative ties: \<open>-0.125 \<times> 100 = -12.5\<close> is rounded to
  \<open>-12\<close>, not to \<open>-13\<close>, and \<open>-0.005 \<times> 100 = -0.5\<close> is rounded to \<open>0\<close>, not to \<open>-1\<close>, so that
  this pair is not rejected.
\<close>

theorem processTransactions_counterexample:
  "fst (processTransactions (*) (ChangeCalculator_new US_CURRENCY None)
          \<lparr> cache = [], random = Seeded 1 \<rparr> [(- 1 / 8, 1)])
     = Inl (InvalidAmountError (- 12))
   \<and> round_half_away_from_zero (- 1 / 8 * 100) = - 13
   \<and> fst (processTransactions (*) (ChangeCalculator_new US_CURRENCY None)
          \<lparr> cache = [], random = Seeded 1 \<rparr> [(- 1 / 200, 1)])
     = Inr [''1 dollar'']
   \<and> round_half_away_from_zero (- 1 / 200 * 100) = - 1"
  by code_simp

section \<open>Seeded instances\<close>

text \<open>
  C10 (as amended). The constructor with a seed replaces the global \<open>Math.random\<close> by a
  generator that starts from the seed. The results of a call sequence that starts in the state
  the constructor leaves depend on the seed and the calls only: whatever the global generator
  was before, and in particular for two instances with the same seed of which the second is
  constructed when the first has made its calls, the same calls give the same results.
\<close>

theorem seeded_runs_agree:
  "fst (run_calls (RandomChangeStrategy_new (Some seed) g) calls)
     = fst (run_calls (RandomChangeStrategy_new (Some seed) g') calls)
   \<and> fst (one_after_the_other seed g calls) = snd (one_after_the_other seed g calls)"
  by (simp add: one_after_the_other_def RandomChangeStrategy_new_def Let_def)

text \<open>
  The claim as it is written fails when both instances exist before the calls are made: the
  second constructor resets the one global generator, the calls of the first instance advance
  it, and the calls of the second instance continue from there.
\<close>

lemma both_constructed_first_example:
  "map resultDenominations
     (fst (both_constructed_first 1 (Seeded 0) [(transaction_of 0 75, US_CURRENCY)]))
     = [example_snapshot]"
  "map resultDenominations
     (snd (both_constructed_first 1 (Seeded 0) [(transaction_of 0 75, US_CURRENCY)]))
     = [ [(''quarter'', 3)] ]"
  by code_simp+

theorem seeded_instances_counterexample:
  "map resultDenominations
     (fst (both_constructed_first 1 (Seeded 0) [(transaction_of 0 75, US_CURRENCY)]))
     = [ [(''quarter'', 2), (''dime'', 2), (''nickel'', 1)] ]
   \<and> map resultDenominations
     (snd (both_constructed_first 1 (Seeded 0) [(transaction_of 0 75, US_CURRENCY)]))
     = [ [(''quarter'', 3)] ]
   \<and> fst (both_constructed_first 1 (Seeded 0) [(transaction_of 0 75, US_CURRENCY)])
     \<noteq> snd (both_constructed_first 1 (Seeded 0) [(transaction_of 0 75, US_CURRENCY)])"
proof -
  let ?r = "both_constructed_first 1 (Seeded 0) [(transaction_of 0 75, US_CURRENCY)]"
  have 1: "map resultDenominations (fst ?r) = [ [(''quarter'', 2), (''dime'', 2), (''nickel'', 1)] ]"
    using both_constructed_first_example(1) by (simp only: example_snapshot_def)
  have 2: "map resultDenominations (snd ?r) = [ [(''quarter'', 3)] ]"
    by (rule both_constructed_first_example(2))
  have 3: "fst ?r \<noteq> snd ?r"
  proof
    assume eq: "fst ?r = snd ?r"
    have "[ [(''quarter'', 2), (''dime'', 2), (''nickel'', 1)] ] = map resultDenominations (fst ?r)"
      by (simp only: 1)
    also have "\<dots> = map resultDenominations (snd ?r)"
      by (simp only: eq)
    also have "\<dots> = [ [(''quarter'', 3)] ]"
      by (simp only: 2)
    finally show False by simp
  qed
  from 1 2 3 show ?thesis by (intro conjI)
qed

section \<open>Cache keys determine the change amount\<close>




section \<open>Valid candidates\<close>















section \<open>The greedy strategy gives a correct breakdown\<close>






section \<open>Every result of the calculator is a correct breakdown\<close>










end
